theory Spec2Isabelle
  imports Complex_Main
begin

section \<open>Strings and block types\<close>

text \<open>
  A JavaScript string is a sequence of UTF-16 code units; \<open>text.length\<close> counts them.
  Code units are natural numbers here, and \<open>str\<close> turns an ASCII literal into one.
\<close>

type_synonym ustring = "nat list"

definition str :: "string \<Rightarrow> ustring" where
  "str s = map of_char s"

text \<open>
  The characters matched by \<open>\s\<close> in a regular expression and removed by
  \<open>String.prototype.trim\<close>: ECMAScript WhiteSpace and LineTerminator.
\<close>

definition isSpace :: "nat \<Rightarrow> bool" where
  "isSpace c \<longleftrightarrow>
     c = 9 \<or> c = 10 \<or> c = 11 \<or> c = 12 \<or> c = 13 \<or> c = 32 \<or> c = 160 \<or> c = 5760 \<or>
     (8192 \<le> c \<and> c \<le> 8202) \<or> c = 8232 \<or> c = 8233 \<or> c = 8239 \<or> c = 8287 \<or>
     c = 12288 \<or> c = 65279"



text \<open>The \<open>type\<close> field of \<open>CustomElement\<close> (ScreenplayEditor.tsx, line 18).\<close>

datatype block_type =
  Paragraph | SceneHeading | Action | Character | Dialogue | Parenthetical | Transition

section \<open>PDF export (App.tsx)\<close>

subsection \<open>formatContentForPDF\<close>






subsection \<open>handleExportPDF\<close>

















section \<open>The editor (ScreenplayEditor.tsx)\<close>

subsection \<open>The text buffer\<close>

text \<open>
  Modelled from the spec: the Slate library (the editor value, the selection, and the
  calls \<open>Editor.node\<close>, \<open>Editor.above\<close>, \<open>Transforms.insertText\<close>, \<open>Transforms.setNodes\<close>,
  \<open>Transforms.insertNodes\<close>, \<open>Transforms.delete\<close>, \<open>Transforms.move\<close>) is not part of the
  repository. The buffer below follows sections 3 and 6 of the specification: the document
  is the ordered sequence of blocks, each a type and one plain-text run, and the selection
  is a range between two points (block index, offset in the text), collapsed when both
  are the same.
\<close>

record block =
  btype :: block_type
  btext :: ustring

type_synonym point = "nat \<times> nat"

record range =
  anchor :: point
  focus :: point

record editor =
  children :: "block list"
  selection :: "range option"

definition isCollapsed :: "range \<Rightarrow> bool" where
  "isCollapsed r \<longleftrightarrow> anchor r = focus r"

definition collapsedAt :: "point \<Rightarrow> range" where
  "collapsedAt p = \<lparr> anchor = p, focus = p \<rparr>"

definition validPoint :: "block list \<Rightarrow> point \<Rightarrow> bool" where
  "validPoint bs p \<longleftrightarrow> fst p < length bs \<and> snd p \<le> length (btext (bs ! fst p))"

definition validRange :: "block list \<Rightarrow> range \<Rightarrow> bool" where
  "validRange bs r \<longleftrightarrow> validPoint bs (anchor r) \<and> validPoint bs (focus r)"

text \<open>The two ends of a range in document order (\<open>Range.edges\<close>).\<close>

definition pointLe :: "point \<Rightarrow> point \<Rightarrow> bool" where
  "pointLe p q \<longleftrightarrow> fst p < fst q \<or> (fst p = fst q \<and> snd p \<le> snd q)"

definition edges :: "range \<Rightarrow> point \<times> point" where
  "edges r = (if pointLe (anchor r) (focus r) then (anchor r, focus r) else (focus r, anchor r))"

text \<open>
  Modelled from the spec: replacing the selected range by a text. What lies between the
  two ends goes away, the text takes its place in the block of the first end, and the
  cursor ends up collapsed behind it; at a collapsed selection this is the plain insertion
  of section 6 (\<open>insertText\<close>). Slate keeps the selection inside the document; a selection
  outside it leaves the editor as it is.
\<close>

definition replaceRange :: "range \<Rightarrow> ustring \<Rightarrow> block list \<Rightarrow> block list" where
  "replaceRange r t bs =
     (let (s, e) = edges r
      in take (fst s) bs
         @ [(bs ! fst s)\<lparr> btext := take (snd s) (btext (bs ! fst s)) @ t
                                     @ drop (snd e) (btext (bs ! fst e)) \<rparr>]
         @ drop (Suc (fst e)) bs)"

definition Slate_insertText :: "ustring \<Rightarrow> editor \<Rightarrow> editor" where
  "Slate_insertText t e =
     (case selection e of
        None \<Rightarrow> e
      | Some r \<Rightarrow>
          if validRange (children e) r then
            \<lparr> children = replaceRange r t (children e),
              selection = Some (collapsedAt (fst (fst (edges r)), snd (fst (edges r)) + length t)) \<rparr>
          else e)"

text \<open>
  Modelled from the spec: \<open>Editor.node(editor, selection)\<close> at a collapsed selection is the
  text run of the block containing the cursor (\<open>queryCurrentBlockText\<close>), and
  \<open>Editor.above\<close> with the element match is that block (\<open>queryCurrentBlockType\<close>); neither
  exists without a selection or across two blocks.
\<close>

definition Editor_above :: "editor \<Rightarrow> block option" where
  "Editor_above e =
     (case selection e of
        None \<Rightarrow> None
      | Some r \<Rightarrow>
          if validRange (children e) r \<and> fst (anchor r) = fst (focus r)
          then Some (children e ! fst (anchor r)) else None)"

definition Editor_node :: "editor \<Rightarrow> ustring option" where
  "Editor_node e = map_option btext (Editor_above e)"

text \<open>
  Modelled from the spec: \<open>Transforms.setNodes(editor, { type })\<close> retypes the blocks
  touched by the selection (\<open>setCurrentBlockType\<close>).
\<close>

definition Transforms_setNodes :: "block_type \<Rightarrow> editor \<Rightarrow> editor" where
  "Transforms_setNodes ty e =
     (case selection e of
        None \<Rightarrow> e
      | Some r \<Rightarrow>
          if validRange (children e) r then
            e\<lparr> children :=
                 map (\<lambda>(i, b). if fst (fst (edges r)) \<le> i \<and> i \<le> fst (snd (edges r))
                                then b\<lparr> btype := ty \<rparr> else b)
                     (zip [0 ..< length (children e)] (children e)) \<rparr>
          else e)"

text \<open>
  Modelled from the spec: \<open>Transforms.insertNodes(editor, element)\<close> is
  \<open>insertBlockAfterCursor\<close>: the new block is placed immediately after the block containing
  the cursor and becomes the cursor's container; text behind the cursor is not relocated
  (section 4.2). A selected range is removed first; without a selection the block goes to
  the end of the document.
\<close>

definition Transforms_insertNodes :: "block \<Rightarrow> editor \<Rightarrow> editor" where
  "Transforms_insertNodes b e =
     (case selection e of
        None \<Rightarrow>
          \<lparr> children = children e @ [b],
            selection = Some (collapsedAt (length (children e), length (btext b))) \<rparr>
      | Some r \<Rightarrow>
          if validRange (children e) r then
            (let bs = replaceRange r [] (children e); i = fst (fst (edges r))
             in \<lparr> children = take (Suc i) bs @ [b] @ drop (Suc i) bs,
                  selection = Some (collapsedAt (Suc i, length (btext b))) \<rparr>)
          else e)"

text \<open>
  Modelled from the spec: \<open>Transforms.delete(editor, { distance: 1, reverse: true })\<close> is
  \<open>deleteBackward(1)\<close>: it removes the one character immediately before a collapsed
  cursor (joining the block to the previous one at offset 0), or the selected range.
\<close>

definition Transforms_delete_reverse :: "editor \<Rightarrow> editor" where
  "Transforms_delete_reverse e =
     (case selection e of
        None \<Rightarrow> e
      | Some r \<Rightarrow>
          if \<not> validRange (children e) r then e
          else if \<not> isCollapsed r then Slate_insertText [] e
          else (let (i, a) = anchor r in
                  if 0 < a then
                    Slate_insertText [] (e\<lparr> selection := Some \<lparr> anchor = (i, a - 1), focus = (i, a) \<rparr> \<rparr>)
                  else if 0 < i then
                    Slate_insertText []
                      (e\<lparr> selection :=
                            Some \<lparr> anchor = (i - 1, length (btext (children e ! (i - 1)))),
                                   focus = (i, a) \<rparr> \<rparr>)
                  else e))"

text \<open>
  Modelled from the spec: \<open>Transforms.move(editor)\<close> moves the cursor one position
  forward, into the next block at the end of a text, and not at all at the end of the
  document.
\<close>

definition movePoint :: "block list \<Rightarrow> point \<Rightarrow> point" where
  "movePoint bs p =
     (if \<not> validPoint bs p then p
      else if snd p < length (btext (bs ! fst p)) then (fst p, Suc (snd p))
      else if Suc (fst p) < length bs then (Suc (fst p), 0)
      else p)"

definition Transforms_move :: "editor \<Rightarrow> editor" where
  "Transforms_move e =
     (case selection e of
        None \<Rightarrow> e
      | Some r \<Rightarrow>
          e\<lparr> selection := Some \<lparr> anchor = movePoint (children e) (anchor r),
                                 focus = movePoint (children e) (focus r) \<rparr> \<rparr>)"

subsection \<open>Auto-formatting\<close>

text \<open>
  The five regular expressions of \<open>autoFormatPatterns\<close> have two shapes:
  \<open>/^WORD\s/i\<close> and \<open>/^WORD\.?\s/i\<close>. Under the flag \<open>i\<close> (without \<open>u\<close>) a code unit
  matches an ASCII capital of the pattern when it is that capital or its small letter: a
  code unit from 128 on is never canonicalised to one below 128.
\<close>

datatype pattern = WordSpace ustring | WordDotSpace ustring

definition canonicalize :: "nat \<Rightarrow> nat" where
  "canonicalize c = (if 97 \<le> c \<and> c \<le> 122 then c - 32 else c)"

fun stripPrefixCI :: "ustring \<Rightarrow> ustring \<Rightarrow> ustring option" where
  "stripPrefixCI [] t = Some t"
| "stripPrefixCI (p # ps) [] = None"
| "stripPrefixCI (p # ps) (c # cs) = (if canonicalize c = p then stripPrefixCI ps cs else None)"

text \<open>\<open>pattern.test(textContent)\<close>; the expressions have no \<open>g\<close> flag, so no state.\<close>

fun test :: "pattern \<Rightarrow> ustring \<Rightarrow> bool" where
  "test (WordSpace w) t =
     (case stripPrefixCI w t of Some (c # r) \<Rightarrow> isSpace c | _ \<Rightarrow> False)"
| "test (WordDotSpace w) t =
     (case stripPrefixCI w t of
        Some (c # r) \<Rightarrow> (c = 46 \<and> (case r of d # r' \<Rightarrow> isSpace d | [] \<Rightarrow> False)) \<or> isSpace c
      | _ \<Rightarrow> False)"

definition autoFormatPatterns :: "(pattern \<times> block_type) list" where
  "autoFormatPatterns =
     [ (WordDotSpace (str ''INT''), SceneHeading),
       (WordDotSpace (str ''EXT''), SceneHeading),
       (WordSpace (str ''FADE''), Transition),
       (WordSpace (str ''CUT''), Transition),
       (WordSpace (str ''DISSOLVE''), Transition) ]"

text \<open>
  The loop of lines 339-351 over a rule list. Besides the editor it returns the patterns
  whose \<open>test\<close> it has called, in order. The \<open>break\<close> sits inside the inner \<open>if\<close>: the
  loop ends after \<open>Transforms.setNodes\<close> only.
\<close>

fun formatLoop :: "(pattern \<times> block_type) list \<Rightarrow> ustring \<Rightarrow> editor \<Rightarrow> pattern list \<times> editor" where
  "formatLoop [] textContent e = ([], e)"
| "formatLoop ((pattern, ty) # rest) textContent e =
     (if test pattern textContent then
        (case Editor_above e of
           Some element \<Rightarrow>
             if btype element \<noteq> ty then ([pattern], Transforms_setNodes ty e)
             else (let (ps, e') = formatLoop rest textContent e in (pattern # ps, e'))
         | None \<Rightarrow> (let (ps, e') = formatLoop rest textContent e in (pattern # ps, e')))
      else (let (ps, e') = formatLoop rest textContent e in (pattern # ps, e')))"

text \<open>\<open>editor.insertText\<close> as \<open>withAutoFormatting\<close> overrides it (lines 327-355).\<close>

definition insertText :: "ustring \<Rightarrow> editor \<Rightarrow> editor" where
  "insertText text e =
     (let isActualText = (text \<noteq> [] \<and> length text = 1 \<and> text \<noteq> [10] \<and> text \<noteq> [9]);
          e = Slate_insertText text e
      in if isActualText then
           (case selection e of
              Some sel \<Rightarrow>
                if isCollapsed sel then
                  (case Editor_node e of
                     Some textContent \<Rightarrow> snd (formatLoop autoFormatPatterns textContent e)
                   | None \<Rightarrow> e)
                else e
            | None \<Rightarrow> e)
         else e)"

text \<open>
  \<open>editor.insertData\<close> (lines 313-325) on the \<open>text/plain\<close> content of the clipboard: a
  non-empty text goes to \<open>Transforms.insertText\<close>, not to \<open>editor.insertText\<close>; the
  original \<open>insertData\<close> of Slate, the parameter \<open>fallback\<close>, gets the rest.
\<close>

definition insertData :: "(editor \<Rightarrow> editor) \<Rightarrow> ustring \<Rightarrow> editor \<Rightarrow> editor" where
  "insertData fallback text e = (if text \<noteq> [] then Slate_insertText text e else fallback e)"

subsection \<open>The command palette\<close>

record command =
  cmd_id :: ustring
  cmd_label :: ustring
  cmd_shortcut :: ustring

definition commands :: "command list" where
  "commands =
     [ \<lparr> cmd_id = str ''scene'', cmd_label = str ''Scene Heading'', cmd_shortcut = str ''/scene'' \<rparr>,
       \<lparr> cmd_id = str ''action'', cmd_label = str ''Action'', cmd_shortcut = str ''/action'' \<rparr>,
       \<lparr> cmd_id = str ''character'', cmd_label = str ''Character'', cmd_shortcut = str ''/character'' \<rparr>,
       \<lparr> cmd_id = str ''dialogue'', cmd_label = str ''Dialogue'', cmd_shortcut = str ''/dialogue'' \<rparr>,
       \<lparr> cmd_id = str ''parenthetical'', cmd_label = str ''Parenthetical'', cmd_shortcut = str ''/parens'' \<rparr>,
       \<lparr> cmd_id = str ''transition'', cmd_label = str ''Transition'', cmd_shortcut = str ''/transition'' \<rparr>,
       \<lparr> cmd_id = str ''shot'', cmd_label = str ''Shot'', cmd_shortcut = str ''/shot'' \<rparr>,
       \<lparr> cmd_id = str ''text'', cmd_label = str ''Text'', cmd_shortcut = str ''/text'' \<rparr>,
       \<lparr> cmd_id = str ''note'', cmd_label = str ''Note'', cmd_shortcut = str ''/note'' \<rparr>,
       \<lparr> cmd_id = str ''outline'', cmd_label = str ''Outline'', cmd_shortcut = str ''/outline'' \<rparr>,
       \<lparr> cmd_id = str ''newact'', cmd_label = str ''New Act'', cmd_shortcut = str ''/newact'' \<rparr>,
       \<lparr> cmd_id = str ''endact'', cmd_label = str ''End Act'', cmd_shortcut = str ''/endact'' \<rparr>,
       \<lparr> cmd_id = str ''lyrics'', cmd_label = str ''Lyrics'', cmd_shortcut = str ''/lyrics'' \<rparr>,
       \<lparr> cmd_id = str ''image'', cmd_label = str ''Image'', cmd_shortcut = str ''/image'' \<rparr>,
       \<lparr> cmd_id = str ''sequence'', cmd_label = str ''Sequence'', cmd_shortcut = str ''/sequence'' \<rparr>,
       \<lparr> cmd_id = str ''dual'', cmd_label = str ''Dual Dialogue'', cmd_shortcut = str ''/dual'' \<rparr> ]"

definition elementMap :: "(ustring \<times> block_type) list" where
  "elementMap =
     [ (str ''scene'', SceneHeading), (str ''action'', Action), (str ''character'', Character),
       (str ''dialogue'', Dialogue), (str ''parenthetical'', Parenthetical),
       (str ''transition'', Transition), (str ''shot'', Action), (str ''text'', Action),
       (str ''note'', Action), (str ''outline'', Action), (str ''newact'', Action),
       (str ''endact'', Action), (str ''lyrics'', Action), (str ''image'', Action),
       (str ''sequence'', Action), (str ''dual'', Dialogue) ]"

text \<open>The remainder operator \<open>%\<close> of JavaScript on integers: the sign of the dividend.\<close>

definition jsRem :: "int \<Rightarrow> int \<Rightarrow> int" where
  "jsRem a b = (if a < 0 then - ((- a) mod \<bar>b\<bar>) else a mod \<bar>b\<bar>)"

text \<open>The two updaters given to \<open>setSelectedIndex\<close> (lines 78 and 82).\<close>

definition selectNext :: "int \<Rightarrow> int" where
  "selectNext prev = jsRem (prev + 1) (int (length commands))"

definition selectPrevious :: "int \<Rightarrow> int" where
  "selectPrevious prev = jsRem (prev - 1 + int (length commands)) (int (length commands))"

text \<open>
  \<open>commands[selectedIndex].id\<close>: outside the array the read is \<open>undefined\<close> and \<open>.id\<close>
  throws a TypeError, the value \<open>None\<close>.
\<close>

definition selectedCommandId :: "int \<Rightarrow> ustring option" where
  "selectedCommandId i =
     (if 0 \<le> i \<and> i < int (length commands) then Some (cmd_id (commands ! nat i)) else None)"

subsection \<open>Key handling\<close>

text \<open>
  \<open>event.key\<close>: the character of a printable key (one code unit), or the name of the key.
\<close>

datatype key = Printable nat | Enter | Tab | Escape | ArrowUp | ArrowDown | OtherKey

text \<open>
  The state of the two components: the editor, \<open>showCommandPalette\<close> of
  \<open>ScreenplayEditor\<close> (the \<open>isOpen\<close> of the palette) and \<open>selectedIndex\<close> of
  \<open>CommandPalette\<close>. The palette's screen position is layout only and left out.
\<close>

record ui =
  editor :: editor
  showCommandPalette :: bool
  selectedIndex :: int

text \<open>\<open>handleCommandSelect\<close> (lines 375-405) and \<open>handleCommandClose\<close> (lines 407-413).\<close>

definition handleCommandSelect :: "ustring \<Rightarrow> ui \<Rightarrow> ui" where
  "handleCommandSelect command s =
     (let e = Transforms_delete_reverse (editor s);
          elementType = (case map_of elementMap command of Some t \<Rightarrow> t | None \<Rightarrow> Action);
          element = \<lparr> btype = elementType, btext = [] \<rparr>;
          e = Transforms_insertNodes element e;
          e = Transforms_move e
      in s\<lparr> editor := e, showCommandPalette := False \<rparr>)"

definition handleCommandClose :: "ui \<Rightarrow> ui" where
  "handleCommandClose s =
     (if showCommandPalette s
      then s\<lparr> editor := Transforms_delete_reverse (editor s), showCommandPalette := False \<rparr>
      else s\<lparr> showCommandPalette := False \<rparr>)"

text \<open>
  \<open>handleKeyDown\<close> of \<open>ScreenplayEditor\<close> (lines 415-481). The second component says
  whether \<open>event.preventDefault()\<close> was called.
\<close>

definition handleKeyDown :: "key \<Rightarrow> ui \<Rightarrow> ui \<times> bool" where
  "handleKeyDown k s =
     (if showCommandPalette s then (s, False)
      else if k = Printable 47 then (s\<lparr> showCommandPalette := True \<rparr>, False)
      else if k = Enter then
        (case selection (editor s) of
           Some sel \<Rightarrow>
             if isCollapsed sel then
               (case Editor_above (editor s) of
                  Some element \<Rightarrow>
                    if btype element = Character then
                      (s\<lparr> editor := Transforms_insertNodes \<lparr> btype = Dialogue, btext = [] \<rparr> (editor s) \<rparr>, True)
                    else if btype element = SceneHeading then
                      (s\<lparr> editor := Transforms_insertNodes \<lparr> btype = Action, btext = [] \<rparr> (editor s) \<rparr>, True)
                    else
                      (s\<lparr> editor := Transforms_insertNodes \<lparr> btype = Action, btext = [] \<rparr> (editor s) \<rparr>, True)
                | None \<Rightarrow> (s, False))
             else (s, False)
         | None \<Rightarrow> (s, False))
      else if k = Tab then
        (case selection (editor s) of
           Some sel \<Rightarrow>
             if isCollapsed sel then
               (s\<lparr> editor := Transforms_insertNodes \<lparr> btype = Character, btext = [] \<rparr> (editor s) \<rparr>, True)
             else (s, True)
         | None \<Rightarrow> (s, True))
      else if k = Escape then (s\<lparr> showCommandPalette := False \<rparr>, False)
      else (s, False))"

text \<open>
  The \<open>keydown\<close> listener of \<open>CommandPalette\<close> (lines 72-93), with the \<open>isOpen\<close> and
  \<open>selectedIndex\<close> it has captured. \<open>None\<close> is the TypeError of \<open>selectedCommandId\<close>.
\<close>

definition paletteKeyDown :: "bool \<Rightarrow> int \<Rightarrow> key \<Rightarrow> ui \<Rightarrow> (ui \<times> bool) option" where
  "paletteKeyDown isOpen selIdx k s =
     (if \<not> isOpen then Some (s, False)
      else (case k of
              ArrowDown \<Rightarrow> Some (s\<lparr> selectedIndex := selectNext (selectedIndex s) \<rparr>, True)
            | ArrowUp \<Rightarrow> Some (s\<lparr> selectedIndex := selectPrevious (selectedIndex s) \<rparr>, True)
            | Enter \<Rightarrow>
                (case selectedCommandId selIdx of
                   None \<Rightarrow> None
                 | Some command \<Rightarrow> Some (handleCommandSelect command s, True))
            | Escape \<Rightarrow> Some (handleCommandClose s, True)
            | _ \<Rightarrow> Some (s, False)))"

text \<open>The effect of lines 65-69: a closed palette has \<open>selectedIndex\<close> 0.\<close>

definition resetSelection :: "ui \<Rightarrow> ui" where
  "resetSelection s = (if \<not> showCommandPalette s then s\<lparr> selectedIndex := 0 \<rparr> else s)"

text \<open>
  Modelled from the spec: the delivery of one key press (section 2, control flow). Both
  listeners see the event, the editor's first; a key whose default action neither has
  prevented falls through to the text buffer, where a printable key calls
  \<open>editor.insertText\<close> with its character. What the buffer does by default with a named
  key (Enter, Backspace, the arrows) is the parameter \<open>named\<close>.
\<close>

definition defaultAction :: "(key \<Rightarrow> editor \<Rightarrow> editor) \<Rightarrow> key \<Rightarrow> editor \<Rightarrow> editor" where
  "defaultAction named k e = (case k of Printable c \<Rightarrow> insertText [c] e | _ \<Rightarrow> named k e)"

definition dispatchKey :: "(key \<Rightarrow> editor \<Rightarrow> editor) \<Rightarrow> key \<Rightarrow> ui \<Rightarrow> ui option" where
  "dispatchKey named k s =
     (let (s1, prevented1) = handleKeyDown k s
      in (case paletteKeyDown (showCommandPalette s) (selectedIndex s) k s1 of
            None \<Rightarrow> None
          | Some (s2, prevented2) \<Rightarrow>
              Some (resetSelection
                      (if prevented1 \<or> prevented2 then s2
                       else s2\<lparr> editor := defaultAction named k (editor s2) \<rparr>))))"

text \<open>A sequence of key presses; it stops at the first error.\<close>

fun dispatchKeys :: "(key \<Rightarrow> editor \<Rightarrow> editor) \<Rightarrow> key list \<Rightarrow> ui \<Rightarrow> ui option" where
  "dispatchKeys named [] s = Some s"
| "dispatchKeys named (k # ks) s =
     (case dispatchKey named k s of None \<Rightarrow> None | Some s' \<Rightarrow> dispatchKeys named ks s')"

section \<open>Reference descriptions and sample data\<close>

text \<open>
  The specification's account of pagination, to compare with the loop: \<open>chunks n\<close> cuts
  a list into consecutive groups of \<open>n\<close> (the last one may be shorter), and
  \<open>placeLines\<close> puts the lines of one page one line height apart, from \<open>y\<close> downward.
\<close>

function chunks :: "nat \<Rightarrow> 'a list \<Rightarrow> 'a list list" where
  "chunks n xs = (if n = 0 \<or> xs = [] then [] else take n xs # chunks n (drop n xs))"
  by pat_completeness auto
termination
  by (relation "measure (\<lambda>(n, xs). length xs)") auto

declare chunks.simps [simp del]




definition noDefault :: "key \<Rightarrow> editor \<Rightarrow> editor" where
  "noDefault = (\<lambda>k e. e)"




definition sceneBlock :: editor where
  "sceneBlock = \<lparr> children = [\<lparr> btype = SceneHeading, btext = str ''INT. X'' \<rparr>],
                   selection = Some (collapsedAt (0, 6)) \<rparr>"

definition actionIntBlock :: editor where
  "actionIntBlock = \<lparr> children = [\<lparr> btype = Action, btext = str ''INT. X'' \<rparr>],
                       selection = Some (collapsedAt (0, 6)) \<rparr>"

definition emptyAction :: ui where
  "emptyAction =
     \<lparr> editor = \<lparr> children = [\<lparr> btype = Action, btext = [] \<rparr>],
                  selection = Some (collapsedAt (0, 0)) \<rparr>,
       showCommandPalette = False, selectedIndex = 0 \<rparr>"



definition paletteOpened :: ui where
  "paletteOpened =
     \<lparr> editor = \<lparr> children = [\<lparr> btype = Action, btext = str ''/'' \<rparr>],
                  selection = Some (collapsedAt (0, 1)) \<rparr>,
       showCommandPalette = True, selectedIndex = 0 \<rparr>"

section \<open>Pagination\<close>


lemma chunks_Nil [simp]: "chunks n [] = []"
  by (simp add: chunks.simps)

















section \<open>An empty body\<close>








section \<open>The title page\<close>




section \<open>The text buffer\<close>

lemma edges_collapsedAt [simp]: "edges (collapsedAt p) = (p, p)"
  by (simp add: edges_def collapsedAt_def pointLe_def)

lemma isCollapsed_collapsedAt [simp]: "isCollapsed (collapsedAt p)"
  by (simp add: isCollapsed_def collapsedAt_def)

lemma isCollapsed_iff: "isCollapsed r \<longleftrightarrow> r = collapsedAt (anchor r)"
  by (cases r) (auto simp: isCollapsed_def collapsedAt_def)

lemma validRange_collapsedAt [simp]: "validRange bs (collapsedAt p) \<longleftrightarrow> validPoint bs p"
  by (simp add: validRange_def collapsedAt_def)

lemma replaceRange_collapsed:
  assumes "validPoint bs (i, a)"
  shows "replaceRange (collapsedAt (i, a)) t bs =
           bs[i := (bs ! i)\<lparr> btext := take a (btext (bs ! i)) @ t @ drop a (btext (bs ! i)) \<rparr>]"
  using assms by (simp add: replaceRange_def validPoint_def upd_conv_take_nth_drop)





lemma edges_valid:
  assumes "validRange bs r"
  shows "validPoint bs (fst (edges r))" and "validPoint bs (snd (edges r))"
    and "pointLe (fst (edges r)) (snd (edges r))"
  using assms by (auto simp: edges_def validRange_def pointLe_def)

lemma replaceRange_nth:
  assumes "validRange bs r"
  shows "fst (fst (edges r)) < length (replaceRange r t bs)"
    and "btype (replaceRange r t bs ! fst (fst (edges r))) = btype (bs ! fst (fst (edges r)))"
proof -
  obtain s e where se: "edges r = (s, e)" by (cases "edges r")
  from edges_valid(1) [OF assms] se have "fst s < length bs" by (simp add: validPoint_def)
  then show "fst (fst (edges r)) < length (replaceRange r t bs)"
    and "btype (replaceRange r t bs ! fst (fst (edges r))) = btype (bs ! fst (fst (edges r)))"
    by (simp_all add: replaceRange_def se nth_append)
qed






section \<open>Auto-formatting\<close>

lemma stripPrefixCI_hd:
  "stripPrefixCI (p # ps) t = Some r \<Longrightarrow> t \<noteq> [] \<and> canonicalize (hd t) = p"
  by (cases t) (auto split: if_splits)

lemma test_WordSpace_hd: "test (WordSpace (p # ps)) t \<Longrightarrow> t \<noteq> [] \<and> canonicalize (hd t) = p"
  by (auto split: option.splits list.splits dest: stripPrefixCI_hd)

lemma test_WordDotSpace_hd: "test (WordDotSpace (p # ps)) t \<Longrightarrow> t \<noteq> [] \<and> canonicalize (hd t) = p"
  by (auto split: option.splits list.splits dest: stripPrefixCI_hd)

lemma catalog_first_letter:
  assumes "(p, ty) \<in> set autoFormatPatterns" and "test p t"
  shows "(canonicalize (hd t) = 73 \<or> canonicalize (hd t) = 69 \<longrightarrow> ty = SceneHeading)
       \<and> (canonicalize (hd t) \<noteq> 73 \<and> canonicalize (hd t) \<noteq> 69 \<longrightarrow> ty = Transition)"
  using assms
  by (auto simp: autoFormatPatterns_def str_def dest!: test_WordSpace_hd test_WordDotSpace_hd)

lemma catalog_same_target:
  assumes "(p, ty) \<in> set autoFormatPatterns" and "test p t"
    and "(p', ty') \<in> set autoFormatPatterns" and "test p' t"
  shows "ty = ty'"
  using catalog_first_letter [OF assms(1,2)] catalog_first_letter [OF assms(3,4)]
  by (cases "canonicalize (hd t) = 73 \<or> canonicalize (hd t) = 69") auto

lemma formatLoop_no_change:
  assumes "\<forall>(p, ty) \<in> set rules. test p t \<longrightarrow> (\<forall>el. Editor_above e = Some el \<longrightarrow> btype el = ty)"
  shows "formatLoop rules t e = (map fst rules, e)"
  using assms by (induction rules) (auto split: option.splits)

lemma formatLoop_first_match:
  assumes "Editor_above e = Some el"
    and "find (\<lambda>(p, ty). test p t) rules = Some (p, ty)"
    and "btype el \<noteq> ty"
  shows "formatLoop rules t e =
           (map fst (takeWhile (\<lambda>(p, ty). \<not> test p t) rules) @ [p], Transforms_setNodes ty e)"
  using assms by (induction rules) (auto split: if_splits)

text \<open>
  C1 (amended). For every text and every current block, the loop over the catalog tests
  the rules in order. With no matching rule it tests all five and changes nothing. When
  the first matching rule has a target type other than the block's, the block is retyped
  to it and the loop ends there: the rules tested are those up to that one. When the
  target type of the first matching rule is the block's type, nothing changes, but the
  loop does not end: the remaining rules are tested as well (none of them can retype the
  block, since two rules of the catalog that match one text have the same target).
\<close>

theorem autoformat_first_match:
  assumes "Editor_above e = Some el"
  shows "(case find (\<lambda>(p, ty). test p t) autoFormatPatterns of
            None \<Rightarrow> formatLoop autoFormatPatterns t e = (map fst autoFormatPatterns, e)
          | Some (p, ty) \<Rightarrow>
              if ty \<noteq> btype el then
                formatLoop autoFormatPatterns t e =
                  (map fst (takeWhile (\<lambda>(p, ty). \<not> test p t) autoFormatPatterns) @ [p],
                   Transforms_setNodes ty e)
              else formatLoop autoFormatPatterns t e = (map fst autoFormatPatterns, e))"
proof (cases "find (\<lambda>(p, ty). test p t) autoFormatPatterns")
  case None
  then have "\<forall>(p, ty) \<in> set autoFormatPatterns. \<not> test p t"
    by (auto simp: find_None_iff)
  then have "formatLoop autoFormatPatterns t e = (map fst autoFormatPatterns, e)"
    by (intro formatLoop_no_change) auto
  with None show ?thesis by simp
next
  case (Some a)
  obtain p ty where a: "a = (p, ty)" by (cases a)
  from Some a have m: "(p, ty) \<in> set autoFormatPatterns" "test p t"
    by (auto simp: find_Some_iff in_set_conv_nth)
  show ?thesis
  proof (cases "ty = btype el")
    case True
    have "\<forall>(p', ty') \<in> set autoFormatPatterns. test p' t \<longrightarrow>
            (\<forall>el'. Editor_above e = Some el' \<longrightarrow> btype el' = ty')"
      using catalog_same_target [OF m] True assms by auto
    then have "formatLoop autoFormatPatterns t e = (map fst autoFormatPatterns, e)"
      by (rule formatLoop_no_change)
    with Some a True show ?thesis by simp
  next
    case False
    then have "btype el \<noteq> ty" by simp
    from formatLoop_first_match [OF assms _ this, of t autoFormatPatterns p] Some a False
    show ?thesis by simp
  qed
qed

theorem autoformat_first_match_witness:
  "Editor_above actionIntBlock = Some \<lparr> btype = Action, btext = str ''INT. X'' \<rparr>
   \<and> formatLoop autoFormatPatterns (str ''INT. X'') actionIntBlock =
       ([WordDotSpace (str ''INT'')],
        \<lparr> children = [\<lparr> btype = SceneHeading, btext = str ''INT. X'' \<rparr>],
          selection = Some (collapsedAt (0, 6)) \<rparr>)"
proof -
  have a: "Editor_above actionIntBlock = Some \<lparr> btype = Action, btext = str ''INT. X'' \<rparr>"
    by (simp add: actionIntBlock_def Editor_above_def validPoint_def collapsedAt_def
        validRange_def str_def)
  have f: "find (\<lambda>(p, ty). test p (str ''INT. X'')) autoFormatPatterns = Some (WordDotSpace (str ''INT''), SceneHeading)"
    by (simp add: autoFormatPatterns_def str_def canonicalize_def isSpace_def)
  have s: "Transforms_setNodes SceneHeading actionIntBlock =
        \<lparr> children = [\<lparr> btype = SceneHeading, btext = str ''INT. X'' \<rparr>],
          selection = Some (collapsedAt (0, 6)) \<rparr>"
    by (simp add: Transforms_setNodes_def actionIntBlock_def validPoint_def str_def)
  from autoformat_first_match [OF a, of "str ''INT. X''"] f s a show ?thesis
    by (simp add: autoFormatPatterns_def str_def canonicalize_def isSpace_def)
qed

theorem autoformat_first_match_counterexample:
  "Editor_above sceneBlock = Some \<lparr> btype = SceneHeading, btext = str ''INT. X'' \<rparr>
   \<and> hd autoFormatPatterns = (WordDotSpace (str ''INT''), SceneHeading)
   \<and> test (WordDotSpace (str ''INT'')) (str ''INT. X'')
   \<and> fst (formatLoop autoFormatPatterns (str ''INT. X'') sceneBlock) =
       [WordDotSpace (str ''INT''), WordDotSpace (str ''EXT''), WordSpace (str ''FADE''),
        WordSpace (str ''CUT''), WordSpace (str ''DISSOLVE'')]"
  by (simp add: sceneBlock_def Editor_above_def validPoint_def collapsedAt_def validRange_def
      autoFormatPatterns_def str_def canonicalize_def isSpace_def)

text \<open>
  C8. A string of more than one code unit given to \<open>editor.insertText\<close> is inserted by
  Slate's own \<open>insertText\<close> and nothing else: the auto-format loop does not run. A paste
  (\<open>insertData\<close>) does not even reach \<open>editor.insertText\<close>. The cursor ends up behind
  the inserted text, in a block whose type is what it was before.
\<close>

theorem paste_no_autoformat:
  assumes "1 < length text"
  shows "insertText text e = Slate_insertText text e
       \<and> insertData fallback text e = Slate_insertText text e
       \<and> (\<forall>r. selection e = Some r \<and> validRange (children e) r \<longrightarrow>
            selection (insertText text e)
              = Some (collapsedAt (fst (fst (edges r)), snd (fst (edges r)) + length text))
            \<and> fst (fst (edges r)) < length (children (insertText text e))
            \<and> btype (children (insertText text e) ! fst (fst (edges r)))
                = btype (children e ! fst (fst (edges r))))"
proof -
  from assms have i: "insertText text e = Slate_insertText text e"
    by (auto simp: insertText_def Let_def)
  from assms have d: "insertData fallback text e = Slate_insertText text e"
    by (auto simp: insertData_def)
  show ?thesis
    using i d by (auto simp: Slate_insertText_def replaceRange_nth)
qed

theorem paste_no_autoformat_witness:
  "1 < length (str ''INT. ROOM'')
   \<and> insertText (str ''INT. ROOM'') (editor emptyAction) =
       \<lparr> children = [\<lparr> btype = Action, btext = str ''INT. ROOM'' \<rparr>],
         selection = Some (collapsedAt (0, 9)) \<rparr>"
proof -
  have l: "1 < length (str ''INT. ROOM'')" by (simp add: str_def)
  have "Slate_insertText (str ''INT. ROOM'') (editor emptyAction) =
       \<lparr> children = [\<lparr> btype = Action, btext = str ''INT. ROOM'' \<rparr>],
         selection = Some (collapsedAt (0, 9)) \<rparr>"
    by (simp add: Slate_insertText_def emptyAction_def replaceRange_collapsed validPoint_def str_def
        eval_nat_numeral)
  with paste_no_autoformat [OF l, of "editor emptyAction" id] l show ?thesis by simp
qed

section \<open>The command palette\<close>









section \<open>Structural keys\<close>

















text \<open>
  C3. The state reached by pressing \<open>/\<close> in an empty Action block has the palette open
  and the text \<open>/\<close>. Pressing \<open>a\<close> there changes the text of the block to \<open>/a\<close>:
  neither listener prevents the key. A following Enter then deletes the \<open>a\<close>, not the
  \<open>/\<close>, before it inserts the new block.
\<close>

theorem palette_open_key_reaches_buffer:
  "dispatchKey noDefault (Printable 47) emptyAction = Some paletteOpened
   \<and> showCommandPalette paletteOpened
   \<and> dispatchKey noDefault (Printable 97) paletteOpened =
       Some \<lparr> editor = \<lparr> children = [\<lparr> btype = Action, btext = str ''/a'' \<rparr>],
                         selection = Some (collapsedAt (0, 2)) \<rparr>,
              showCommandPalette = True, selectedIndex = 0 \<rparr>
   \<and> dispatchKeys noDefault [Printable 97, Enter] paletteOpened =
       Some \<lparr> editor = \<lparr> children = [\<lparr> btype = Action, btext = str ''/'' \<rparr>,
                                      \<lparr> btype = SceneHeading, btext = [] \<rparr>],
                         selection = Some (collapsedAt (1, 0)) \<rparr>,
              showCommandPalette = False, selectedIndex = 0 \<rparr>"
  by code_simp

end
